theory Spec2Isabelle
  imports Complex_Main "HOL-Library.Multiset"
begin

section \<open>Values of the host language\<close>

text \<open>
  A parsed timestamp is a point on the time line, counted in microseconds (the resolution
  of Python's \<open>datetime\<close>); every writer of the case table stores timestamps made
  with the zone \<open>America/Lima\<close>, so all of them are timezone-aware instants. The
  difference of two timestamps is a \<open>timedelta\<close>, again a count of microseconds.
  A float is a rational number or NaN: rounding of 64-bit floats is not part of the model.
\<close>

type_synonym datetime = int
type_synonym timedelta = int

datatype exc = ValueError | TypeError

datatype pyfloat = NaN | Fin rat

datatype val = VInt int | VFloat pyfloat

fun notna :: "pyfloat \<Rightarrow> bool" where
  "notna NaN = False"
| "notna (Fin x) = True"

text \<open>Comparison \<open>x <= c\<close> of a float column with a number: false on NaN.\<close>

fun le_num :: "pyfloat \<Rightarrow> rat \<Rightarrow> bool" where
  "le_num NaN c = False"
| "le_num (Fin x) c = (x \<le> c)"

definition total_seconds :: "timedelta \<Rightarrow> rat" where
  "total_seconds td = of_int td / 1000000"

section \<open>The case table\<close>

text \<open>
  One row of the table \<open>cases\<close>. The timestamp columns hold ISO text (or NULL) when read
  from the store and parsed timestamps after \<open>compute_metrics\<close>, hence the parameter.
\<close>

record 'ts case_row =
  case_id :: int
  case_code :: "string option"
  historia_clinica :: "string option"
  paciente :: "string option"
  servicio :: "string option"
  cirujano :: "string option"
  pieza :: "string option"
  estado :: "string option"
  t_inicio :: "'ts option"
  t_recepcion :: "'ts option"
  t_criostato :: "'ts option"
  t_diagnostico :: "'ts option"
  t_comunicado :: "'ts option"
  notas :: "string option"

record metrics_row = "datetime case_row" +
  min_recep_a_diag :: pyfloat
  min_diag_a_com :: pyfloat
  min_total :: pyfloat
  cumple_SLA :: bool
  estado_calc :: string

text \<open>
  The loop over the five timestamp columns, \<open>df[col] = convert(df[col])\<close>, seen on one row.
\<close>

definition convert_times :: "('a option \<Rightarrow> 'b option) \<Rightarrow> 'a case_row \<Rightarrow> 'b case_row" where
  "convert_times conv r =
     \<lparr> case_id = case_id r, case_code = case_code r, historia_clinica = historia_clinica r,
       paciente = paciente r, servicio = servicio r, cirujano = cirujano r, pieza = pieza r,
       estado = estado r,
       t_inicio = conv (t_inicio r), t_recepcion = conv (t_recepcion r),
       t_criostato = conv (t_criostato r), t_diagnostico = conv (t_diagnostico r),
       t_comunicado = conv (t_comunicado r), notas = notas r \<rparr>"

text \<open>\<open>np.where(df["t_diagnostico"].notna() & df["t_comunicado"].notna(), "reportado", "pendiente")\<close>\<close>

definition estado_of :: "datetime option \<Rightarrow> datetime option \<Rightarrow> string" where
  "estado_of t_diag t_com = (if t_diag \<noteq> None \<and> t_com \<noteq> None then ''reportado'' else ''pendiente'')"

section \<open>app.py: row-wise metrics\<close>

text \<open>
  \<open>datetime.fromisoformat\<close> is a parameter: it returns the timestamp or raises.
  \<open>parse_iso\<close> catches every exception and returns \<open>None\<close>.
\<close>

definition parse_iso :: "(string \<Rightarrow> exc + datetime) \<Rightarrow> string option \<Rightarrow> datetime option" where
  "parse_iso fromisoformat dt_iso =
     (case dt_iso of
        None \<Rightarrow> None
      | Some s \<Rightarrow>
          if s = [] then None
          else (case fromisoformat s of Inr d \<Rightarrow> Some d | Inl e \<Rightarrow> None))"

definition duration_minutes :: "datetime option \<Rightarrow> datetime option \<Rightarrow> pyfloat" where
  "duration_minutes t0 t1 =
     (case t0 of
        None \<Rightarrow> NaN
      | Some a \<Rightarrow> (case t1 of None \<Rightarrow> NaN | Some b \<Rightarrow> Fin (total_seconds (b - a) / 60)))"

definition metrics_of_row :: "int \<Rightarrow> datetime case_row \<Rightarrow> metrics_row" where
  "metrics_of_row sla_min r =
     (let m_rd = duration_minutes (t_recepcion r) (t_diagnostico r);
          m_dc = duration_minutes (t_diagnostico r) (t_comunicado r);
          m_tot = duration_minutes (t_recepcion r) (t_comunicado r)
      in case_row.extend r
           \<lparr> min_recep_a_diag = m_rd, min_diag_a_com = m_dc, min_total = m_tot,
             cumple_SLA = le_num m_tot (of_int sla_min),
             estado_calc = estado_of (t_diagnostico r) (t_comunicado r) \<rparr>)"

text \<open>
  The derived columns are built with \<open>df.apply(..., axis=1)\<close>. On a frame without rows
  pandas does not call the function row by row: it returns a copy of the frame, and
  storing a frame of several columns under the one name \<open>min_recep_a_diag\<close> raises
  \<open>ValueError\<close>. On a frame with rows the function is applied to each row.
\<close>

definition compute_metrics :: "(string \<Rightarrow> exc + datetime) \<Rightarrow> string case_row list \<Rightarrow> int \<Rightarrow> exc + metrics_row list" where
  "compute_metrics fromisoformat df sla_min =
     (if df = [] then Inl ValueError
      else Inr (map (\<lambda>r. metrics_of_row sla_min (convert_times (parse_iso fromisoformat) r)) df))"

section \<open>app3.py: vectorised metrics\<close>

text \<open>
  \<open>pd.to_datetime(col, errors="coerce")\<close>, seen on one entry: the strict conversion is a
  parameter, NULL is NaT, and a text the conversion rejects is coerced to NaT. NaT is
  \<open>None\<close>.
\<close>

definition to_datetime :: "(string \<Rightarrow> exc + datetime) \<Rightarrow> string option \<Rightarrow> datetime option" where
  "to_datetime strict x =
     (case x of
        None \<Rightarrow> None
      | Some s \<Rightarrow> (case strict s of Inr d \<Rightarrow> Some d | Inl e \<Rightarrow> None))"

text \<open>
  The durations are differences of whole columns. Every stored timestamp carries the offset
  of its zone, so a converted column that holds a timestamp is timezone-aware, and a column
  without any (all NULL or rejected) is a timezone-naive column of NaT. Subtracting an
  aware and a naive column raises \<open>TypeError\<close>; otherwise the difference is taken entry by
  entry, with NaT carried on.
\<close>

definition tz_aware :: "datetime option list \<Rightarrow> bool" where
  "tz_aware col = list_ex (\<lambda>x. x \<noteq> None) col"

definition sub_dt :: "datetime option \<Rightarrow> datetime option \<Rightarrow> timedelta option" where
  "sub_dt t1 t0 =
     (case t1 of
        None \<Rightarrow> None
      | Some b \<Rightarrow> (case t0 of None \<Rightarrow> None | Some a \<Rightarrow> Some (b - a)))"

definition sub_columns :: "datetime option list \<Rightarrow> datetime option list \<Rightarrow> exc + timedelta option list" where
  "sub_columns c1 c0 =
     (if tz_aware c1 \<noteq> tz_aware c0 then Inl TypeError
      else Inr (map (\<lambda>(t1, t0). sub_dt t1 t0) (zip c1 c0)))"

definition dt_total_seconds :: "timedelta option \<Rightarrow> pyfloat" where
  "dt_total_seconds d = (case d of None \<Rightarrow> NaN | Some x \<Rightarrow> Fin (total_seconds x))"

fun div_num :: "pyfloat \<Rightarrow> rat \<Rightarrow> pyfloat" where
  "div_num NaN c = NaN"
| "div_num (Fin x) c = Fin (x / c)"

text \<open>\<open>col.dt.total_seconds() / 60\<close>\<close>

definition minutes_column :: "timedelta option list \<Rightarrow> pyfloat list" where
  "minutes_column col = map (\<lambda>d. div_num (dt_total_seconds d) 60) col"

text \<open>One row of the result: the converted case with its entries of the new columns.\<close>

definition metrics_of_row3 :: "int \<Rightarrow> datetime case_row \<Rightarrow> pyfloat \<Rightarrow> pyfloat \<Rightarrow> pyfloat \<Rightarrow> metrics_row" where
  "metrics_of_row3 sla_min r m_rd m_dc m_tot =
     case_row.extend r
       \<lparr> min_recep_a_diag = m_rd, min_diag_a_com = m_dc, min_total = m_tot,
         cumple_SLA = le_num m_tot (of_int sla_min),
         estado_calc = estado_of (t_diagnostico r) (t_comunicado r) \<rparr>"

definition compute_metrics3 :: "(string \<Rightarrow> exc + datetime) \<Rightarrow> string case_row list \<Rightarrow> int \<Rightarrow> exc + metrics_row list" where
  "compute_metrics3 strict df sla_min =
     (if df = [] then Inr []
      else
        let df1 = map (convert_times (to_datetime strict)) df
        in case sub_columns (map t_diagnostico df1) (map t_recepcion df1) of
             Inl e \<Rightarrow> Inl e
           | Inr d_rd \<Rightarrow>
               (case sub_columns (map t_comunicado df1) (map t_diagnostico df1) of
                  Inl e \<Rightarrow> Inl e
                | Inr d_dc \<Rightarrow>
                    (case sub_columns (map t_comunicado df1) (map t_recepcion df1) of
                       Inl e \<Rightarrow> Inl e
                     | Inr d_tot \<Rightarrow>
                         Inr (map (\<lambda>(r, m_rd, m_dc, m_tot). metrics_of_row3 sla_min r m_rd m_dc m_tot)
                                (zip df1 (zip (minutes_column d_rd)
                                   (zip (minutes_column d_dc) (minutes_column d_tot))))))))"

section \<open>Statistics of numpy and pandas\<close>

text \<open>
  \<open>np.nanmedian\<close>, \<open>np.nanpercentile\<close> (default method, linear interpolation between the
  two closest ranks) and \<open>np.nanmean\<close> drop NaN and return NaN when nothing is left;
  \<open>Series.mean\<close> of a boolean column is the fraction of true entries.
\<close>

fun finite_vals :: "pyfloat list \<Rightarrow> rat list" where
  "finite_vals [] = []"
| "finite_vals (NaN # xs) = finite_vals xs"
| "finite_vals (Fin x # xs) = x # finite_vals xs"

definition nanmedian :: "pyfloat list \<Rightarrow> pyfloat" where
  "nanmedian xs =
     (let v = sort (finite_vals xs); n = length v
      in if n = 0 then NaN
         else if odd n then Fin (v ! (n div 2))
         else Fin ((v ! (n div 2 - 1) + v ! (n div 2)) / 2))"

definition nanpercentile :: "pyfloat list \<Rightarrow> rat \<Rightarrow> pyfloat" where
  "nanpercentile xs q =
     (let v = sort (finite_vals xs); n = length v
      in if n = 0 then NaN
         else
           let h = of_nat (n - 1) * q / 100;
               lo = nat \<lfloor>h\<rfloor>;
               hi = min (lo + 1) (n - 1);
               g = h - of_int \<lfloor>h\<rfloor>
           in Fin (v ! lo + g * (v ! hi - v ! lo)))"

definition nanmean :: "pyfloat list \<Rightarrow> pyfloat" where
  "nanmean xs =
     (let v = finite_vals xs
      in if v = [] then NaN else Fin (sum_list v / of_nat (length v)))"

definition mean_bool :: "bool list \<Rightarrow> pyfloat" where
  "mean_bool bs =
     (if bs = [] then NaN else Fin (of_nat (length (filter (\<lambda>b. b) bs)) / of_nat (length bs)))"

fun mul_num :: "rat \<Rightarrow> pyfloat \<Rightarrow> pyfloat" where
  "mul_num c NaN = NaN"
| "mul_num c (Fin x) = Fin (c * x)"

section \<open>The summary\<close>

text \<open>\<open>df[df["min_total"].notna()]\<close>\<close>

definition df_ok :: "metrics_row list \<Rightarrow> metrics_row list" where
  "df_ok df = filter (\<lambda>r. notna (min_total r)) df"

text \<open>The entries that both versions of \<open>summarize\<close> build when \<open>df_ok\<close> is not empty.\<close>

definition kpis :: "metrics_row list \<Rightarrow> int \<Rightarrow> (string \<rightharpoonup> val)" where
  "kpis df sla_min =
     [ ''n'' \<mapsto> VInt (int (length df)),
       ''n_con_TAT'' \<mapsto> VInt (int (length (df_ok df))),
       ''mediana_min'' \<mapsto> VFloat (nanmedian (map min_total (df_ok df))),
       ''p90_min'' \<mapsto> VFloat (nanpercentile (map min_total (df_ok df)) 90),
       ''cumplimiento_%'' \<mapsto>
          VFloat (mul_num 100 (mean_bool (map (\<lambda>r. le_num (min_total r) (of_int sla_min)) (df_ok df)))),
       ''prom_recep_diag'' \<mapsto> VFloat (nanmean (map min_recep_a_diag (df_ok df))),
       ''prom_diag_com'' \<mapsto> VFloat (nanmean (map min_diag_a_com (df_ok df))) ]"

text \<open>\<open>summarize\<close> of app.py.\<close>

definition summarize :: "metrics_row list \<Rightarrow> int \<Rightarrow> (string \<rightharpoonup> val)" where
  "summarize df sla_min =
     (if df_ok df = [] then [ ''n'' \<mapsto> VInt 0 ] else kpis df sla_min)"

text \<open>\<open>summarize\<close> of app3.py.\<close>

definition summarize3 :: "metrics_row list \<Rightarrow> int \<Rightarrow> (string \<rightharpoonup> val)" where
  "summarize3 df sla_min =
     (if df_ok df = []
      then [ ''n'' \<mapsto> VInt (int (length df)), ''n_con_TAT'' \<mapsto> VInt 0,
             ''mediana_min'' \<mapsto> VFloat NaN, ''p90_min'' \<mapsto> VFloat NaN,
             ''cumplimiento_%'' \<mapsto> VFloat (Fin 0),
             ''prom_recep_diag'' \<mapsto> VFloat NaN, ''prom_diag_com'' \<mapsto> VFloat NaN ]
      else kpis df sla_min)"

section \<open>Sample data\<close>

text \<open>
  The answers of the two library conversions on the texts of the examples below:
  ISO texts as the application writes them (\<open>isoformat(timespec="minutes")\<close> in the zone
  \<open>-05:00\<close>), and texts with slashes, which \<open>datetime.fromisoformat\<close> rejects and
  \<open>pd.to_datetime\<close> reads.
\<close>

definition fromisoformat_sample :: "string \<Rightarrow> exc + datetime" where
  "fromisoformat_sample s =
     (if s = ''2024-01-05T10:00-05:00'' then Inr 1704466800000000
      else if s = ''2024-01-05T10:10-05:00'' then Inr 1704467400000000
      else if s = ''2024-01-05T10:15-05:00'' then Inr 1704467700000000
      else if s = ''2024-01-05T10:40-05:00'' then Inr 1704469200000000
      else Inl ValueError)"

definition to_datetime_sample :: "string \<Rightarrow> exc + datetime" where
  "to_datetime_sample s =
     (if s = ''2024/01/05 10:00'' then Inr 1704448800000000
      else if s = ''2024/01/05 10:10'' then Inr 1704449400000000
      else if s = ''2024/01/05 10:20'' then Inr 1704450000000000
      else fromisoformat_sample s)"

definition case0 :: "string case_row" where
  "case0 =
     \<lparr> case_id = 1, case_code = Some ''IO-20240105-100'', historia_clinica = Some ''HC3000'',
       paciente = Some ''P1'', servicio = Some ''Trauma'', cirujano = Some ''Dr. A'',
       pieza = Some ''Ganglio centinela'', estado = Some ''pendiente'',
       t_inicio = None, t_recepcion = None, t_criostato = None, t_diagnostico = None,
       t_comunicado = None, notas = None \<rparr>"

definition sample_case :: "string option \<Rightarrow> string option \<Rightarrow> string option \<Rightarrow> string case_row" where
  "sample_case rec diag com =
     case0 \<lparr> t_recepcion := rec, t_diagnostico := diag, t_comunicado := com \<rparr>"

text \<open>
  Four cases: a complete one (15 minutes), one without communication (reception to
  diagnosis 40 minutes), one communicated before its reception (-15 minutes) and one
  without diagnosis (40 minutes).
\<close>

definition df_sample :: "string case_row list" where
  "df_sample =
     [ sample_case (Some ''2024-01-05T10:00-05:00'') (Some ''2024-01-05T10:10-05:00'') (Some ''2024-01-05T10:15-05:00''),
       sample_case (Some ''2024-01-05T10:00-05:00'') (Some ''2024-01-05T10:40-05:00'') None,
       sample_case (Some ''2024-01-05T10:15-05:00'') None (Some ''2024-01-05T10:00-05:00''),
       sample_case (Some ''2024-01-05T10:00-05:00'') None (Some ''2024-01-05T10:40-05:00'') ]"

text \<open>
  Two cases, neither with both a reception and a communication: one without
  communication and one without reception.
\<close>

definition df_no_TAT :: "string case_row list" where
  "df_no_TAT =
     [ sample_case (Some ''2024-01-05T10:00-05:00'') (Some ''2024-01-05T10:10-05:00'') None,
       sample_case None (Some ''2024-01-05T10:10-05:00'') (Some ''2024-01-05T10:15-05:00'') ]"

text \<open>The tables of the two samples above, for the threshold 30.\<close>

definition table_sample :: "metrics_row list" where
  "table_sample = map (\<lambda>r. metrics_of_row 30 (convert_times (parse_iso fromisoformat_sample) r)) df_sample"

definition table_no_TAT :: "metrics_row list" where
  "table_no_TAT = map (\<lambda>r. metrics_of_row 30 (convert_times (parse_iso fromisoformat_sample) r)) df_no_TAT"

section \<open>Notions of the specification\<close>

text \<open>
  The mean of one duration column over the cases where that duration is defined, as the
  specification words the per-interval averages.
\<close>

fun fin_val :: "pyfloat \<Rightarrow> rat" where
  "fin_val NaN = 0"
| "fin_val (Fin x) = x"

definition mean_of_defined :: "(metrics_row \<Rightarrow> pyfloat) \<Rightarrow> metrics_row list \<Rightarrow> pyfloat" where
  "mean_of_defined col rows =
     (let s = filter (\<lambda>r. notna (col r)) rows
      in if s = [] then NaN else Fin (sum_list (map (\<lambda>r. fin_val (col r)) s) / of_nat (length s)))"

text \<open>A case whose timestamp texts that the parser rejects are replaced by NULL.\<close>

definition absent_if_rejected :: "(string \<Rightarrow> exc + datetime) \<Rightarrow> string case_row \<Rightarrow> string case_row" where
  "absent_if_rejected parser r =
     convert_times
       (\<lambda>x. case x of None \<Rightarrow> None
             | Some s \<Rightarrow> (case parser s of Inl e \<Rightarrow> None | Inr d \<Rightarrow> Some s)) r"

text \<open>
  What is read off the table that \<open>compute_metrics\<close> returns; when it raises, so does
  every later step.
\<close>

definition on_table :: "(metrics_row list \<Rightarrow> 'a) \<Rightarrow> exc + metrics_row list \<Rightarrow> exc + 'a" where
  "on_table h res = (case res of Inl e \<Rightarrow> Inl e | Inr ms \<Rightarrow> Inr (h ms))"

text \<open>The three derived durations of a row.\<close>

definition durations :: "metrics_row \<Rightarrow> pyfloat \<times> pyfloat \<times> pyfloat" where
  "durations m = (min_recep_a_diag m, min_diag_a_com m, min_total m)"

text \<open>The five derived values of a row.\<close>

definition derived :: "metrics_row \<Rightarrow> pyfloat \<times> pyfloat \<times> pyfloat \<times> bool \<times> string" where
  "derived m = (min_recep_a_diag m, min_diag_a_com m, min_total m, cumple_SLA m, estado_calc m)"

text \<open>
  The condition under which the three differences of columns of app3.py are taken: the
  reception, diagnosis and communication columns are all aware or all naive.
\<close>

definition subtractable :: "(string \<Rightarrow> exc + datetime) \<Rightarrow> string case_row list \<Rightarrow> bool" where
  "subtractable strict df =
     (tz_aware (map (\<lambda>r. to_datetime strict (t_diagnostico r)) df) =
        tz_aware (map (\<lambda>r. to_datetime strict (t_recepcion r)) df) \<and>
      tz_aware (map (\<lambda>r. to_datetime strict (t_comunicado r)) df) =
        tz_aware (map (\<lambda>r. to_datetime strict (t_diagnostico r)) df))"


text \<open>A case whose timestamps are written with slashes, and one without communication.\<close>

definition case_slashes :: "string case_row" where
  "case_slashes =
     sample_case (Some ''2024/01/05 10:00'') (Some ''2024/01/05 10:10'') (Some ''2024/01/05 10:20'')"

definition case_pending :: "string case_row" where
  "case_pending = sample_case (Some ''2024-01-05T10:00-05:00'') (Some ''2024-01-05T10:10-05:00'') None"

section \<open>Rows of the computed table\<close>

lemma metrics_of_row_durations:
  "min_recep_a_diag (metrics_of_row sla r) = duration_minutes (t_recepcion r) (t_diagnostico r)"
  "min_diag_a_com (metrics_of_row sla r) = duration_minutes (t_diagnostico r) (t_comunicado r)"
  "min_total (metrics_of_row sla r) = duration_minutes (t_recepcion r) (t_comunicado r)"
  by (simp_all add: metrics_of_row_def Let_def case_row.extend_def)

lemma metrics_of_row_flags:
  "cumple_SLA (metrics_of_row sla r) = le_num (duration_minutes (t_recepcion r) (t_comunicado r)) (of_int sla)"
  "estado_calc (metrics_of_row sla r) = estado_of (t_diagnostico r) (t_comunicado r)"
  by (simp_all add: metrics_of_row_def Let_def case_row.extend_def)

lemma metrics_of_row_times:
  "t_recepcion (metrics_of_row sla r) = t_recepcion r"
  "t_diagnostico (metrics_of_row sla r) = t_diagnostico r"
  "t_comunicado (metrics_of_row sla r) = t_comunicado r"
  by (simp_all add: metrics_of_row_def Let_def case_row.extend_def)

lemma minutes3_eq: "div_num (dt_total_seconds (sub_dt t1 t0)) 60 = duration_minutes t0 t1"
  by (simp add: sub_dt_def dt_total_seconds_def duration_minutes_def split: option.splits)

lemma metrics_of_row3_eq:
  "metrics_of_row3 sla r
     (div_num (dt_total_seconds (sub_dt (t_diagnostico r) (t_recepcion r))) 60)
     (div_num (dt_total_seconds (sub_dt (t_comunicado r) (t_diagnostico r))) 60)
     (div_num (dt_total_seconds (sub_dt (t_comunicado r) (t_recepcion r))) 60) =
   metrics_of_row sla r"
  by (simp add: metrics_of_row3_def metrics_of_row_def minutes3_eq Let_def)

lemma zip_columns: "zip (map a xs) (map b xs) = map (\<lambda>x. (a x, b x)) xs"
  by (induction xs) simp_all

lemma sub_columns_map:
  "sub_columns (map a xs) (map b xs) =
     (if tz_aware (map a xs) \<noteq> tz_aware (map b xs) then Inl TypeError
      else Inr (map (\<lambda>x. sub_dt (a x) (b x)) xs))"
  by (simp add: sub_columns_def zip_columns)

lemma zip_rows:
  "zip xs (zip (map a xs) (zip (map b xs) (map c xs))) = map (\<lambda>x. (x, a x, b x, c x)) xs"
  by (induction xs) simp_all

lemma compute_metrics3_eq:
  "compute_metrics3 g df sla =
     (if df = [] then Inr []
      else if \<not> subtractable g df then Inl TypeError
      else Inr (map (\<lambda>r. metrics_of_row sla (convert_times (to_datetime g) r)) df))"
proof (cases "df = []")
  case True
  then show ?thesis
    by (simp add: compute_metrics3_def)
next
  case False
  let ?c = "convert_times (to_datetime g)"
  have cols: "map t_recepcion (map ?c df) = map (\<lambda>r. to_datetime g (t_recepcion r)) df"
    "map t_diagnostico (map ?c df) = map (\<lambda>r. to_datetime g (t_diagnostico r)) df"
    "map t_comunicado (map ?c df) = map (\<lambda>r. to_datetime g (t_comunicado r)) df"
    by (simp_all add: convert_times_def o_def)
  have subs: "sub_columns (map t_diagnostico (map ?c df)) (map t_recepcion (map ?c df)) =
      (if tz_aware (map t_diagnostico (map ?c df)) \<noteq> tz_aware (map t_recepcion (map ?c df))
       then Inl TypeError
       else Inr (map (\<lambda>x. sub_dt (t_diagnostico x) (t_recepcion x)) (map ?c df)))"
    "sub_columns (map t_comunicado (map ?c df)) (map t_diagnostico (map ?c df)) =
      (if tz_aware (map t_comunicado (map ?c df)) \<noteq> tz_aware (map t_diagnostico (map ?c df))
       then Inl TypeError
       else Inr (map (\<lambda>x. sub_dt (t_comunicado x) (t_diagnostico x)) (map ?c df)))"
    "sub_columns (map t_comunicado (map ?c df)) (map t_recepcion (map ?c df)) =
      (if tz_aware (map t_comunicado (map ?c df)) \<noteq> tz_aware (map t_recepcion (map ?c df))
       then Inl TypeError
       else Inr (map (\<lambda>x. sub_dt (t_comunicado x) (t_recepcion x)) (map ?c df)))"
    by (rule sub_columns_map)+
  have rows: "map (\<lambda>(r, m_rd, m_dc, m_tot). metrics_of_row3 sla r m_rd m_dc m_tot)
       (zip (map ?c df)
          (zip (minutes_column (map (\<lambda>x. sub_dt (t_diagnostico x) (t_recepcion x)) (map ?c df)))
             (zip (minutes_column (map (\<lambda>x. sub_dt (t_comunicado x) (t_diagnostico x)) (map ?c df)))
                  (minutes_column (map (\<lambda>x. sub_dt (t_comunicado x) (t_recepcion x)) (map ?c df)))))) =
     map (\<lambda>r. metrics_of_row sla (?c r)) df"
  proof -
    have "zip (map ?c df)
          (zip (minutes_column (map (\<lambda>x. sub_dt (t_diagnostico x) (t_recepcion x)) (map ?c df)))
             (zip (minutes_column (map (\<lambda>x. sub_dt (t_comunicado x) (t_diagnostico x)) (map ?c df)))
                  (minutes_column (map (\<lambda>x. sub_dt (t_comunicado x) (t_recepcion x)) (map ?c df))))) =
       map (\<lambda>x. (x, div_num (dt_total_seconds (sub_dt (t_diagnostico x) (t_recepcion x))) 60,
                    div_num (dt_total_seconds (sub_dt (t_comunicado x) (t_diagnostico x))) 60,
                    div_num (dt_total_seconds (sub_dt (t_comunicado x) (t_recepcion x))) 60)) (map ?c df)"
      unfolding minutes_column_def map_map o_def
      using zip_rows [of "map ?c df"
          "\<lambda>x. div_num (dt_total_seconds (sub_dt (t_diagnostico x) (t_recepcion x))) 60"
          "\<lambda>x. div_num (dt_total_seconds (sub_dt (t_comunicado x) (t_diagnostico x))) 60"
          "\<lambda>x. div_num (dt_total_seconds (sub_dt (t_comunicado x) (t_recepcion x))) 60"]
      by (simp add: o_def)
    then show ?thesis
      by (simp add: o_def metrics_of_row3_eq)
  qed
  show ?thesis
  proof (cases "subtractable g df")
    case True
    then have a: "tz_aware (map t_diagnostico (map ?c df)) = tz_aware (map t_recepcion (map ?c df))"
      and b: "tz_aware (map t_comunicado (map ?c df)) = tz_aware (map t_diagnostico (map ?c df))"
      unfolding subtractable_def cols by blast+
    from a b have c: "tz_aware (map t_comunicado (map ?c df)) = tz_aware (map t_recepcion (map ?c df))"
      by simp
    show ?thesis
      using False True rows
      by (simp add: compute_metrics3_def Let_def subs a b c del: map_map)
  next
    case n: False
    then have "tz_aware (map t_diagnostico (map ?c df)) \<noteq> tz_aware (map t_recepcion (map ?c df)) \<or>
        tz_aware (map t_comunicado (map ?c df)) \<noteq> tz_aware (map t_diagnostico (map ?c df))"
      unfolding subtractable_def cols by blast
    then show ?thesis
      using False n
      by (auto simp add: compute_metrics3_def Let_def subs simp del: map_map)
  qed
qed

lemma compute_metrics_Inr:
  "compute_metrics f df sla = Inr ms \<longleftrightarrow>
     df \<noteq> [] \<and> ms = map (\<lambda>r. metrics_of_row sla (convert_times (parse_iso f) r)) df"
  by (auto simp: compute_metrics_def)

lemma compute_metrics3_Inr:
  "compute_metrics3 g df sla = Inr ms \<longleftrightarrow>
     (df = [] \<or> subtractable g df) \<and>
     ms = map (\<lambda>r. metrics_of_row sla (convert_times (to_datetime g) r)) df"
  by (auto simp: compute_metrics3_eq)

lemma on_table_compute_metrics:
  "on_table h (compute_metrics f df sla) =
     (if df = [] then Inl ValueError
      else Inr (h (map (\<lambda>r. metrics_of_row sla (convert_times (parse_iso f) r)) df)))"
  by (simp add: on_table_def compute_metrics_def)

lemma on_table_compute_metrics3:
  "on_table h (compute_metrics3 g df sla) =
     (if df \<noteq> [] \<and> \<not> subtractable g df then Inl TypeError
      else Inr (h (map (\<lambda>r. metrics_of_row sla (convert_times (to_datetime g) r)) df)))"
  by (simp add: on_table_def compute_metrics3_eq)

lemma in_computed:
  assumes "compute_metrics f df sla = Inr ms \<or> compute_metrics3 g df sla = Inr ms"
    and "m \<in> set ms"
  obtains r where "m = metrics_of_row sla r"
  using assms by (auto simp: compute_metrics_Inr compute_metrics3_Inr)

lemma duration_minutes_Some:
  "duration_minutes (Some a) (Some b) = Fin (of_int (b - a) / 60000000)"
  by (simp add: duration_minutes_def total_seconds_def)

lemma duration_minutes_None: "duration_minutes None t = NaN" "duration_minutes t None = NaN"
  by (simp_all add: duration_minutes_def split: option.splits)

lemma sample_table:
  "compute_metrics fromisoformat_sample df_sample 30 = Inr table_sample"
  "compute_metrics3 to_datetime_sample df_sample 30 = Inr table_sample"
  by code_simp+

lemma sample_no_TAT:
  "compute_metrics fromisoformat_sample df_no_TAT 30 = Inr table_no_TAT"
  "compute_metrics3 to_datetime_sample df_no_TAT 30 = Inr table_no_TAT"
  by code_simp+

section \<open>Durations and flags of one case\<close>













section \<open>Degenerate input\<close>

lemma parse_iso_rejected: "f s = Inl e \<Longrightarrow> parse_iso f (Some s) = None"
  by (simp add: parse_iso_def)

lemma to_datetime_rejected: "g s = Inl e \<Longrightarrow> to_datetime g (Some s) = None"
  by (simp add: to_datetime_def)

lemma parse_iso_absent_if_rejected:
  "parse_iso f (case x of None \<Rightarrow> None | Some s \<Rightarrow> (case f s of Inl e \<Rightarrow> None | Inr d \<Rightarrow> Some s)) = parse_iso f x"
  by (simp add: parse_iso_def split: option.splits sum.splits)

lemma to_datetime_absent_if_rejected:
  "to_datetime g (case x of None \<Rightarrow> None | Some s \<Rightarrow> (case g s of Inl e \<Rightarrow> None | Inr d \<Rightarrow> Some s)) = to_datetime g x"
  by (simp add: to_datetime_def split: option.splits sum.splits)

lemma convert_times_absent_if_rejected:
  "convert_times (parse_iso f) (absent_if_rejected f r) = convert_times (parse_iso f) r"
  "convert_times (to_datetime g) (absent_if_rejected g r) = convert_times (to_datetime g) r"
  by (simp_all add: absent_if_rejected_def convert_times_def
        parse_iso_absent_if_rejected to_datetime_absent_if_rejected)

lemma absent_endpoint_NaN:
  assumes "compute_metrics f df sla = Inr ms \<or> compute_metrics3 g df sla = Inr ms"
    and "m \<in> set ms"
  shows "(t_recepcion m = None \<longrightarrow> min_recep_a_diag m = NaN \<and> min_total m = NaN) \<and>
         (t_diagnostico m = None \<longrightarrow> min_recep_a_diag m = NaN \<and> min_diag_a_com m = NaN) \<and>
         (t_comunicado m = None \<longrightarrow> min_diag_a_com m = NaN \<and> min_total m = NaN)"
proof -
  from assms obtain r where m: "m = metrics_of_row sla r"
    by (rule in_computed)
  show ?thesis
    by (auto simp: m metrics_of_row_times metrics_of_row_durations duration_minutes_None)
qed

text \<open>
  A text that the conversion rejects is read as an absent timestamp by both versions, and
  the result is the one for the table with such texts replaced by NULL: a table with
  NaN durations, or for app3.py \<open>TypeError\<close> when a whole column is left without a
  timestamp.
\<close>

lemma rejected_text_absent:
  "compute_metrics f (map (absent_if_rejected f) df) sla = compute_metrics f df sla"
  "compute_metrics3 g (map (absent_if_rejected g) df) sla = compute_metrics3 g df sla"
  by (simp_all add: compute_metrics_def compute_metrics3_def o_def convert_times_absent_if_rejected)

lemma rejected_text_sample:
  "fromisoformat_sample ''ayer'' = Inl ValueError"
  "on_table (map durations) (compute_metrics fromisoformat_sample
       [sample_case (Some ''ayer'') None (Some ''2024-01-05T10:15-05:00'')] 30) = Inr [(NaN, NaN, NaN)]"
  "on_table (map durations) (compute_metrics3 to_datetime_sample
       [sample_case (Some ''ayer'') None (Some ''2024-01-05T10:15-05:00'')] 30) = Inl TypeError"
  by code_simp+

text \<open>
  C8. On the empty table \<open>compute_metrics\<close> of app.py raises \<open>ValueError\<close> where the
  claim says it returns the empty table; \<open>compute_metrics\<close> of app3.py, which tests for
  the empty table first, returns it.
\<close>

theorem empty_table:
  "compute_metrics f [] sla = Inl ValueError \<and> compute_metrics3 g [] sla = Inr []"
  by (simp add: compute_metrics_def compute_metrics3_def)

section \<open>Negative durations and the compliance rate\<close>

lemma mean_bool_map:
  "xs \<noteq> [] \<Longrightarrow> mul_num 100 (mean_bool (map P xs)) = Fin (100 * of_nat (length (filter P xs)) / of_nat (length xs))"
  by (simp add: mean_bool_def filter_map o_def)

lemma kpis_cumplimiento:
  "df_ok ms \<noteq> [] \<Longrightarrow> kpis ms sla ''cumplimiento_%'' =
     Some (VFloat (Fin (100 * of_nat (length (filter (\<lambda>r. le_num (min_total r) (of_int sla)) (df_ok ms))) /
                        of_nat (length (df_ok ms)))))"
  by (simp add: kpis_def mean_bool_map)

text \<open>
  C10. A case communicated before its reception has a negative \<open>min_total\<close>; for a
  positive threshold its flag \<open>cumple_SLA\<close> is true, it is a row of \<open>df_ok\<close> (the
  denominator of the compliance rate) and of the rows of \<open>df_ok\<close> within the threshold
  (the numerator), in both versions.
\<close>

theorem negative_duration_compliant:
  assumes "compute_metrics f df sla = Inr ms \<or> compute_metrics3 g df sla = Inr ms"
    and "m \<in> set ms" and "t_recepcion m = Some a" and "t_comunicado m = Some b"
    and "b < a" and "0 < sla"
  shows "cumple_SLA m \<and> m \<in> set (df_ok ms) \<and>
         m \<in> set (filter (\<lambda>r. le_num (min_total r) (of_int sla)) (df_ok ms)) \<and>
         summarize ms sla ''cumplimiento_%'' =
           Some (VFloat (Fin (100 * of_nat (length (filter (\<lambda>r. le_num (min_total r) (of_int sla)) (df_ok ms))) /
                              of_nat (length (df_ok ms))))) \<and>
         summarize3 ms sla ''cumplimiento_%'' = summarize ms sla ''cumplimiento_%''"
proof -
  from assms(1,2) obtain r where m: "m = metrics_of_row sla r"
    by (rule in_computed)
  from assms(3,4) have r: "t_recepcion r = Some a" "t_comunicado r = Some b"
    by (simp_all add: m metrics_of_row_times)
  have tot: "min_total m = Fin (of_int (b - a) / 60000000)"
    by (simp add: m r metrics_of_row_durations duration_minutes_Some)
  have neg: "(of_int (b - a) / 60000000 :: rat) < 0"
    using assms(5) by (simp add: divide_neg_pos)
  have le: "le_num (min_total m) (of_int sla)"
    using neg assms(6) by (simp add: tot)
  have c: "cumple_SLA m"
    using le by (simp add: m metrics_of_row_flags metrics_of_row_durations)
  have ok: "m \<in> set (df_ok ms)"
    using assms(2) by (simp add: df_ok_def tot)
  then have ne: "df_ok ms \<noteq> []"
    by auto
  show ?thesis
    using c ok le ne by (simp add: summarize_def summarize3_def kpis_cumplimiento)
qed

theorem negative_duration_compliant_witness:
  "compute_metrics fromisoformat_sample df_sample 30 = Inr table_sample \<and>
   compute_metrics3 to_datetime_sample df_sample 30 = Inr table_sample \<and>
   table_sample ! 2 \<in> set table_sample \<and>
   t_recepcion (table_sample ! 2) = Some 1704467700000000 \<and>
   t_comunicado (table_sample ! 2) = Some 1704466800000000 \<and>
   (1704466800000000 :: int) < 1704467700000000 \<and> (0 :: int) < 30 \<and>
   cumple_SLA (table_sample ! 2) \<and>
   table_sample ! 2 \<in> set (df_ok table_sample) \<and>
   summarize table_sample 30 ''cumplimiento_%'' = Some (VFloat (Fin (200 / 3)))"
proof -
  have 0: "compute_metrics fromisoformat_sample df_sample 30 = Inr table_sample \<or>
           compute_metrics3 to_datetime_sample df_sample 30 = Inr table_sample"
    using sample_table by simp
  have 1: "table_sample ! 2 \<in> set table_sample"
    by code_simp
  have 2: "t_recepcion (table_sample ! 2) = Some 1704467700000000"
    by code_simp
  have 3: "t_comunicado (table_sample ! 2) = Some 1704466800000000"
    by code_simp
  have 4: "(1704466800000000 :: int) < 1704467700000000"
    by simp
  have 5: "(0 :: int) < 30"
    by simp
  have 6: "summarize table_sample 30 ''cumplimiento_%'' = Some (VFloat (Fin (200 / 3)))"
    by code_simp
  from negative_duration_compliant [OF 0 1 2 3 4 5] sample_table 1 2 3 6 show ?thesis
    by simp
qed

section \<open>Order of the rows\<close>

lemma finite_vals_filter: "finite_vals xs = map fin_val (filter notna xs)"
  by (induction xs rule: finite_vals.induct) simp_all

lemma mset_finite_vals: "mset xs = mset ys \<Longrightarrow> mset (finite_vals xs) = mset (finite_vals ys)"
  by (metis finite_vals_filter mset_filter mset_map)

lemma sort_finite_vals: "mset xs = mset ys \<Longrightarrow> sort (finite_vals xs) = sort (finite_vals ys)"
  by (metis mset_finite_vals mset_sort properties_for_sort sorted_sort)

lemma nanmedian_perm: "mset xs = mset ys \<Longrightarrow> nanmedian xs = nanmedian ys"
  by (simp add: nanmedian_def sort_finite_vals [of xs ys])

lemma nanpercentile_perm: "mset xs = mset ys \<Longrightarrow> nanpercentile xs q = nanpercentile ys q"
  by (simp add: nanpercentile_def sort_finite_vals [of xs ys])

lemma nanmean_perm: "mset xs = mset ys \<Longrightarrow> nanmean xs = nanmean ys"
proof -
  assume "mset xs = mset ys"
  then have m: "mset (finite_vals xs) = mset (finite_vals ys)"
    by (rule mset_finite_vals)
  then have "sum_list (finite_vals xs) = sum_list (finite_vals ys)"
    by (metis sum_mset_sum_list)
  moreover from m have "length (finite_vals xs) = length (finite_vals ys)"
    by (rule mset_eq_length)
  moreover from m have "finite_vals xs = [] \<longleftrightarrow> finite_vals ys = []"
    by (metis mset_zero_iff)
  ultimately show ?thesis
    by (simp add: nanmean_def Let_def)
qed

lemma mean_bool_perm: "mset xs = mset ys \<Longrightarrow> mean_bool xs = mean_bool ys"
proof -
  assume m: "mset xs = mset ys"
  then have "length xs = length ys"
    by (rule mset_eq_length)
  moreover from m have "mset (filter (\<lambda>b. b) xs) = mset (filter (\<lambda>b. b) ys)"
    by simp
  then have "length (filter (\<lambda>b. b) xs) = length (filter (\<lambda>b. b) ys)"
    by (rule mset_eq_length)
  moreover from m have "xs = [] \<longleftrightarrow> ys = []"
    by (metis mset_zero_iff)
  ultimately show ?thesis
    by (simp add: mean_bool_def)
qed

lemma df_ok_perm: "mset df = mset df' \<Longrightarrow> mset (df_ok df) = mset (df_ok df')"
  by (simp add: df_ok_def)

lemma kpis_perm:
  assumes "mset df = mset df'"
  shows "kpis df sla = kpis df' sla"
proof -
  have ok: "mset (df_ok df) = mset (df_ok df')"
    using assms by (rule df_ok_perm)
  have cols: "mset (map c (df_ok df)) = mset (map c (df_ok df'))" for c :: "metrics_row \<Rightarrow> 'a"
    using ok by simp
  have "length df = length df'"
    using assms by (rule mset_eq_length)
  moreover have "length (df_ok df) = length (df_ok df')"
    using ok by (rule mset_eq_length)
  moreover note nanmedian_perm [OF cols] nanpercentile_perm [OF cols] nanmean_perm [OF cols]
    mean_bool_perm [OF cols]
  ultimately show ?thesis
    by (simp add: kpis_def)
qed

lemma summarize_perm:
  assumes "mset df = mset df'"
  shows "summarize df sla = summarize df' sla" and "summarize3 df sla = summarize3 df' sla"
proof -
  have "mset (df_ok df) = mset (df_ok df')"
    using assms by (rule df_ok_perm)
  then have e: "df_ok df = [] \<longleftrightarrow> df_ok df' = []"
    by (metis mset_zero_iff)
  have l: "length df = length df'"
    using assms by (rule mset_eq_length)
  show "summarize df sla = summarize df' sla"
    using e kpis_perm [OF assms] by (simp add: summarize_def)
  show "summarize3 df sla = summarize3 df' sla"
    using e l kpis_perm [OF assms] by (simp add: summarize3_def)
qed

lemma compute_metrics_perm:
  assumes "mset df = mset df'"
  shows "mset (map (\<lambda>r. metrics_of_row sla (convert_times c r)) df) =
         mset (map (\<lambda>r. metrics_of_row sla (convert_times c r)) df')"
  using assms by simp

lemma tz_aware_perm: "set xs = set ys \<Longrightarrow> tz_aware xs = tz_aware ys"
  by (simp add: tz_aware_def list_ex_iff)

lemma subtractable_perm:
  assumes "mset df = mset df'"
  shows "subtractable g df = subtractable g df'"
proof -
  have "set df = set df'"
    using assms by (rule mset_eq_setD)
  then have "set (map h df) = set (map h df')" for h :: "string case_row \<Rightarrow> datetime option"
    by simp
  then have "tz_aware (map h df) = tz_aware (map h df')" for h
    by (rule tz_aware_perm)
  then show ?thesis
    by (simp add: subtractable_def)
qed

text \<open>
  C7. \<open>summarize\<close> is a function of the table and the threshold, and its median and
  90th percentile do not depend on the order of the rows: for two tables with the same
  rows in any order (equal as multisets), computing the metrics and summarising gives
  the same \<open>mediana_min\<close> and \<open>p90_min\<close>, in both versions.
\<close>

theorem median_p90_row_order:
  assumes "mset df = mset df'"
  shows "on_table (\<lambda>ms. summarize ms sla ''mediana_min'') (compute_metrics f df sla) =
           on_table (\<lambda>ms. summarize ms sla ''mediana_min'') (compute_metrics f df' sla) \<and>
         on_table (\<lambda>ms. summarize ms sla ''p90_min'') (compute_metrics f df sla) =
           on_table (\<lambda>ms. summarize ms sla ''p90_min'') (compute_metrics f df' sla) \<and>
         on_table (\<lambda>ms. summarize3 ms sla ''mediana_min'') (compute_metrics3 g df sla) =
           on_table (\<lambda>ms. summarize3 ms sla ''mediana_min'') (compute_metrics3 g df' sla) \<and>
         on_table (\<lambda>ms. summarize3 ms sla ''p90_min'') (compute_metrics3 g df sla) =
           on_table (\<lambda>ms. summarize3 ms sla ''p90_min'') (compute_metrics3 g df' sla)"
proof -
  have e: "df = [] \<longleftrightarrow> df' = []"
    using assms by (metis mset_zero_iff)
  note a = summarize_perm(1) [OF compute_metrics_perm [OF assms, of sla "parse_iso f"], of sla]
  note b = summarize_perm(2) [OF compute_metrics_perm [OF assms, of sla "to_datetime g"], of sla]
  note c = subtractable_perm [OF assms, of g]
  show ?thesis
    using e a b c by (simp add: on_table_compute_metrics on_table_compute_metrics3)
qed

theorem median_p90_row_order_witness:
  "mset df_sample = mset (rev df_sample) \<and>
   on_table (\<lambda>ms. summarize ms 30 ''mediana_min'') (compute_metrics fromisoformat_sample (rev df_sample) 30) =
     Inr (Some (VFloat (Fin 15))) \<and>
   on_table (\<lambda>ms. summarize ms 30 ''p90_min'') (compute_metrics fromisoformat_sample (rev df_sample) 30) =
     Inr (Some (VFloat (Fin 35))) \<and>
   on_table (\<lambda>ms. summarize3 ms 30 ''p90_min'') (compute_metrics3 to_datetime_sample (rev df_sample) 30) =
     Inr (Some (VFloat (Fin 35)))"
proof -
  have 1: "mset df_sample = mset (rev df_sample)"
    by simp
  have 2: "on_table (\<lambda>ms. summarize ms 30 ''mediana_min'') (compute_metrics fromisoformat_sample df_sample 30) =
           Inr (Some (VFloat (Fin 15)))"
    by code_simp
  have 3: "on_table (\<lambda>ms. summarize ms 30 ''p90_min'') (compute_metrics fromisoformat_sample df_sample 30) =
           Inr (Some (VFloat (Fin 35)))"
    by code_simp
  have 4: "on_table (\<lambda>ms. summarize3 ms 30 ''p90_min'') (compute_metrics3 to_datetime_sample df_sample 30) =
           Inr (Some (VFloat (Fin 35)))"
    by code_simp
  note perm = median_p90_row_order [OF 1, of 30 fromisoformat_sample to_datetime_sample]
  from perm 2 have "on_table (\<lambda>ms. summarize ms 30 ''mediana_min'')
      (compute_metrics fromisoformat_sample (rev df_sample) 30) = Inr (Some (VFloat (Fin 15)))"
    by metis
  moreover from perm 3 have "on_table (\<lambda>ms. summarize ms 30 ''p90_min'')
      (compute_metrics fromisoformat_sample (rev df_sample) 30) = Inr (Some (VFloat (Fin 35)))"
    by metis
  moreover from perm 4 have "on_table (\<lambda>ms. summarize3 ms 30 ''p90_min'')
      (compute_metrics3 to_datetime_sample (rev df_sample) 30) = Inr (Some (VFloat (Fin 35)))"
    by metis
  ultimately show ?thesis
    using 1 by blast
qed

section \<open>Change of the threshold\<close>

lemma metrics_of_row_threshold:
  "cumple_SLA_update (\<lambda>_. False) (metrics_of_row s1 r) = cumple_SLA_update (\<lambda>_. False) (metrics_of_row s2 r)"
  by (simp add: metrics_of_row_def Let_def case_row.extend_def)

lemma compute_metrics_threshold:
  "map (cumple_SLA_update (\<lambda>_. False)) (map (\<lambda>r. metrics_of_row s1 (convert_times c r)) df) =
   map (cumple_SLA_update (\<lambda>_. False)) (map (\<lambda>r. metrics_of_row s2 (convert_times c r)) df)"
  by (simp add: o_def metrics_of_row_threshold)

lemma df_ok_flag:
  "df_ok (map (cumple_SLA_update u) A) = map (cumple_SLA_update u) (df_ok A)"
  by (simp add: df_ok_def filter_map o_def)

lemma column_frame:
  assumes "map (cumple_SLA_update u) A = map (cumple_SLA_update u) B"
    and "\<And>m. c (cumple_SLA_update u m) = c m"
  shows "map c A = map c B" and "map c (df_ok A) = map c (df_ok B)"
proof -
  have "map c X = map c (map (cumple_SLA_update u) X)" for X
    by (simp add: o_def assms(2))
  then show "map c A = map c B"
    using assms(1) by metis
  have "map c (df_ok X) = map c (df_ok (map (cumple_SLA_update u) X))" for X
    by (simp add: df_ok_flag o_def assms(2))
  then show "map c (df_ok A) = map c (df_ok B)"
    using assms(1) by metis
qed

lemma kpis_frame:
  assumes "map (cumple_SLA_update u) A = map (cumple_SLA_update u) B"
    and "k \<noteq> ''cumplimiento_%''"
  shows "kpis A s1 k = kpis B s2 k"
    and "summarize A s1 k = summarize B s2 k"
    and "summarize3 A s1 k = summarize3 B s2 k"
proof -
  have tot: "map min_total (df_ok A) = map min_total (df_ok B)"
    using assms(1) by (rule column_frame) simp
  have rd: "map min_recep_a_diag (df_ok A) = map min_recep_a_diag (df_ok B)"
    using assms(1) by (rule column_frame) simp
  have dc: "map min_diag_a_com (df_ok A) = map min_diag_a_com (df_ok B)"
    using assms(1) by (rule column_frame) simp
  have len: "length A = length B"
    using assms(1) by (rule map_eq_imp_length_eq)
  have len_ok: "length (df_ok A) = length (df_ok B)"
    using tot by (rule map_eq_imp_length_eq)
  then have e: "df_ok A = [] \<longleftrightarrow> df_ok B = []"
    by (metis length_0_conv)
  show k: "kpis A s1 k = kpis B s2 k"
    using assms(2) by (simp add: kpis_def tot rd dc len len_ok)
  show "summarize A s1 k = summarize B s2 k"
    using e k by (simp add: summarize_def)
  show "summarize3 A s1 k = summarize3 B s2 k"
    using e k assms(2) by (simp add: summarize3_def len)
qed

lemma durations_flag: "durations (cumple_SLA_update u m) = durations m"
  by (simp add: durations_def)

text \<open>
  C6. Computing with another threshold leaves every row unchanged except for its flag
  \<open>cumple_SLA\<close> (so the three durations are the same), and leaves every entry of the
  summary unchanged except for the compliance rate, in both versions.
\<close>

theorem threshold_frame:
  "on_table (map durations) (compute_metrics f df s1) = on_table (map durations) (compute_metrics f df s2) \<and>
   on_table (map durations) (compute_metrics3 g df s1) = on_table (map durations) (compute_metrics3 g df s2) \<and>
   on_table (map (cumple_SLA_update (\<lambda>_. False))) (compute_metrics f df s1) =
     on_table (map (cumple_SLA_update (\<lambda>_. False))) (compute_metrics f df s2) \<and>
   on_table (map (cumple_SLA_update (\<lambda>_. False))) (compute_metrics3 g df s1) =
     on_table (map (cumple_SLA_update (\<lambda>_. False))) (compute_metrics3 g df s2) \<and>
   (k \<noteq> ''cumplimiento_%'' \<longrightarrow>
      on_table (\<lambda>ms. summarize ms s1 k) (compute_metrics f df s1) =
        on_table (\<lambda>ms. summarize ms s2 k) (compute_metrics f df s2) \<and>
      on_table (\<lambda>ms. summarize3 ms s1 k) (compute_metrics3 g df s1) =
        on_table (\<lambda>ms. summarize3 ms s2 k) (compute_metrics3 g df s2))"
proof -
  note a = compute_metrics_threshold [of s1 "parse_iso f" df s2]
  note b = compute_metrics_threshold [of s1 "to_datetime g" df s2]
  have "on_table (map durations) (compute_metrics f df s1) = on_table (map durations) (compute_metrics f df s2)"
    using column_frame(1) [OF a, of durations] by (simp add: on_table_compute_metrics durations_flag)
  moreover have "on_table (map durations) (compute_metrics3 g df s1) =
      on_table (map durations) (compute_metrics3 g df s2)"
    using column_frame(1) [OF b, of durations] by (simp add: on_table_compute_metrics3 durations_flag)
  moreover have "on_table (map (cumple_SLA_update (\<lambda>_. False))) (compute_metrics f df s1) =
     on_table (map (cumple_SLA_update (\<lambda>_. False))) (compute_metrics f df s2)"
    using a by (simp add: on_table_compute_metrics)
  moreover have "on_table (map (cumple_SLA_update (\<lambda>_. False))) (compute_metrics3 g df s1) =
     on_table (map (cumple_SLA_update (\<lambda>_. False))) (compute_metrics3 g df s2)"
    using b by (simp add: on_table_compute_metrics3)
  moreover have "on_table (\<lambda>ms. summarize ms s1 k) (compute_metrics f df s1) =
        on_table (\<lambda>ms. summarize ms s2 k) (compute_metrics f df s2)" if "k \<noteq> ''cumplimiento_%''"
    using kpis_frame(2) [OF a that, of s1 s2] by (simp add: on_table_compute_metrics)
  moreover have "on_table (\<lambda>ms. summarize3 ms s1 k) (compute_metrics3 g df s1) =
        on_table (\<lambda>ms. summarize3 ms s2 k) (compute_metrics3 g df s2)" if "k \<noteq> ''cumplimiento_%''"
    using kpis_frame(3) [OF b that, of s1 s2] by (auto simp: on_table_compute_metrics3)
  ultimately show ?thesis
    by blast
qed

theorem threshold_frame_witness:
  "''p90_min'' \<noteq> ''cumplimiento_%'' \<and>
   on_table (map durations) (compute_metrics fromisoformat_sample df_sample 30) =
     on_table (map durations) (compute_metrics fromisoformat_sample df_sample 10) \<and>
   on_table (\<lambda>ms. summarize ms 30 ''p90_min'') (compute_metrics fromisoformat_sample df_sample 30) =
     on_table (\<lambda>ms. summarize ms 10 ''p90_min'') (compute_metrics fromisoformat_sample df_sample 10) \<and>
   on_table (map cumple_SLA) (compute_metrics fromisoformat_sample df_sample 30) =
     Inr [True, False, True, False] \<and>
   on_table (map cumple_SLA) (compute_metrics fromisoformat_sample df_sample 10) =
     Inr [False, False, True, False]"
proof -
  have 1: "''p90_min'' \<noteq> ''cumplimiento_%''"
    by simp
  have 2: "on_table (map cumple_SLA) (compute_metrics fromisoformat_sample df_sample 30) =
           Inr [True, False, True, False]"
    by code_simp
  have 3: "on_table (map cumple_SLA) (compute_metrics fromisoformat_sample df_sample 10) =
           Inr [False, False, True, False]"
    by code_simp
  from threshold_frame [of fromisoformat_sample df_sample 30 10 to_datetime_sample "''p90_min''"] 1 2 3
  show ?thesis
    by blast
qed

section \<open>The per-interval averages\<close>

lemma nanmean_column: "nanmean (map col xs) = mean_of_defined col xs"
proof -
  have "finite_vals (map col xs) = map (\<lambda>r. fin_val (col r)) (filter (\<lambda>r. notna (col r)) xs)"
    by (simp add: finite_vals_filter filter_map o_def)
  then show ?thesis
    by (simp add: nanmean_def mean_of_defined_def Let_def)
qed

text \<open>
  C3, as the code has it. When some case has a total duration, \<open>prom_recep_diag\<close> is the
  mean of the reception to diagnosis durations over the cases of \<open>df_ok\<close> (those whose
  total duration is defined) where that duration is defined, and \<open>prom_diag_com\<close>
  likewise, in both versions: both averages are taken inside \<open>df_ok\<close>.
\<close>

theorem interval_means_over_df_ok:
  assumes "df_ok df \<noteq> []"
  shows "summarize df sla ''prom_recep_diag'' = Some (VFloat (mean_of_defined min_recep_a_diag (df_ok df))) \<and>
         summarize df sla ''prom_diag_com'' = Some (VFloat (mean_of_defined min_diag_a_com (df_ok df))) \<and>
         summarize3 df sla ''prom_recep_diag'' = Some (VFloat (mean_of_defined min_recep_a_diag (df_ok df))) \<and>
         summarize3 df sla ''prom_diag_com'' = Some (VFloat (mean_of_defined min_diag_a_com (df_ok df)))"
  using assms by (simp add: summarize_def summarize3_def kpis_def nanmean_column)

theorem interval_means_over_df_ok_witness:
  "compute_metrics fromisoformat_sample df_sample 30 = Inr table_sample \<and>
   compute_metrics3 to_datetime_sample df_sample 30 = Inr table_sample \<and>
   df_ok table_sample \<noteq> [] \<and>
   mean_of_defined min_recep_a_diag (df_ok table_sample) = Fin 10 \<and>
   summarize table_sample 30 ''prom_recep_diag'' = Some (VFloat (Fin 10)) \<and>
   summarize3 table_sample 30 ''prom_recep_diag'' = Some (VFloat (Fin 10))"
proof -
  have 1: "df_ok table_sample \<noteq> []"
    by code_simp
  have 2: "mean_of_defined min_recep_a_diag (df_ok table_sample) = Fin 10"
    by code_simp
  from interval_means_over_df_ok [OF 1, of 30] sample_table 1 2 show ?thesis
    by simp
qed

text \<open>
  C3 as stated fails: the second sample case has a reception to diagnosis duration of 40
  minutes and no total duration. The mean over all cases where the interval is defined
  is 25; both versions report 10, the mean without that case.
\<close>

theorem interval_means_counterexample:
  "compute_metrics fromisoformat_sample df_sample 30 = Inr table_sample \<and>
   compute_metrics3 to_datetime_sample df_sample 30 = Inr table_sample \<and>
   min_recep_a_diag (table_sample ! 1) = Fin 40 \<and>
   min_total (table_sample ! 1) = NaN \<and>
   mean_of_defined min_recep_a_diag table_sample = Fin 25 \<and>
   summarize table_sample 30 ''prom_recep_diag'' = Some (VFloat (Fin 10)) \<and>
   summarize3 table_sample 30 ''prom_recep_diag'' = Some (VFloat (Fin 10)) \<and>
   summarize table_sample 30 ''prom_recep_diag'' \<noteq>
     Some (VFloat (mean_of_defined min_recep_a_diag table_sample)) \<and>
   summarize3 table_sample 30 ''prom_recep_diag'' \<noteq>
     Some (VFloat (mean_of_defined min_recep_a_diag table_sample))"
  by code_simp

section \<open>No case with a total duration\<close>

lemma df_ok_empty_iff: "df_ok df = [] \<longleftrightarrow> (\<forall>m \<in> set df. min_total m = NaN)"
proof -
  have "\<not> notna v \<longleftrightarrow> v = NaN" for v
    by (cases v) simp_all
  then show ?thesis
    by (simp add: df_ok_def filter_empty_conv)
qed

text \<open>
  C4, as the code has it. On a table in which no case has a total duration,
  \<open>summarize\<close> of app3.py returns the number of cases as \<open>n\<close>, zero cases with a total
  duration, the compliance rate 0.0 and NaN for the median, the percentile and the two
  averages; \<open>summarize\<close> of app.py returns the single entry \<open>n = 0\<close>.
\<close>

theorem summarize_no_TAT:
  assumes "df_ok df = []"
  shows "summarize3 df sla ''n'' = Some (VInt (int (length df))) \<and>
         summarize3 df sla ''n_con_TAT'' = Some (VInt 0) \<and>
         summarize3 df sla ''cumplimiento_%'' = Some (VFloat (Fin 0)) \<and>
         summarize3 df sla ''mediana_min'' = Some (VFloat NaN) \<and>
         summarize3 df sla ''p90_min'' = Some (VFloat NaN) \<and>
         summarize3 df sla ''prom_recep_diag'' = Some (VFloat NaN) \<and>
         summarize3 df sla ''prom_diag_com'' = Some (VFloat NaN) \<and>
         summarize df sla = [''n'' \<mapsto> VInt 0]"
  using assms by (simp add: summarize3_def summarize_def)

theorem summarize_no_TAT_witness:
  "compute_metrics fromisoformat_sample df_no_TAT 30 = Inr table_no_TAT \<and>
   compute_metrics3 to_datetime_sample df_no_TAT 30 = Inr table_no_TAT \<and>
   df_ok table_no_TAT = [] \<and>
   summarize3 table_no_TAT 30 ''n'' = Some (VInt 2) \<and>
   summarize3 table_no_TAT 30 ''n_con_TAT'' = Some (VInt 0) \<and>
   summarize3 table_no_TAT 30 ''cumplimiento_%'' = Some (VFloat (Fin 0)) \<and>
   summarize3 table_no_TAT 30 ''mediana_min'' = Some (VFloat NaN) \<and>
   summarize table_no_TAT 30 = [''n'' \<mapsto> VInt 0]"
proof -
  have 1: "df_ok table_no_TAT = []"
    by code_simp
  have 2: "length table_no_TAT = 2"
    by code_simp
  from summarize_no_TAT [OF 1, of 30] sample_no_TAT 1 2 show ?thesis
    by simp
qed

text \<open>
  C4 as stated fails for app.py: on the table of two cases, neither with both a
  reception and a communication, its \<open>summarize\<close> gives \<open>n = 0\<close>, not the number of
  cases, and no entry for the cases with a total duration, the compliance rate or the
  statistics.
\<close>

theorem summarize_no_TAT_counterexample:
  "compute_metrics fromisoformat_sample df_no_TAT 30 = Inr table_no_TAT \<and>
   length table_no_TAT = 2 \<and>
   df_ok table_no_TAT = [] \<and>
   summarize table_no_TAT 30 ''n'' = Some (VInt 0) \<and>
   summarize table_no_TAT 30 ''n'' \<noteq> Some (VInt (int (length table_no_TAT))) \<and>
   summarize table_no_TAT 30 ''n_con_TAT'' = None \<and>
   summarize table_no_TAT 30 ''cumplimiento_%'' = None \<and>
   summarize table_no_TAT 30 ''mediana_min'' = None \<and>
   summarize table_no_TAT 30 ''p90_min'' = None \<and>
   summarize table_no_TAT 30 ''prom_recep_diag'' = None \<and>
   summarize table_no_TAT 30 ''prom_diag_com'' = None"
  by code_simp

section \<open>The two versions\<close>

lemma derived_row:
  "derived (metrics_of_row sla (convert_times c r)) =
     (duration_minutes (c (t_recepcion r)) (c (t_diagnostico r)),
      duration_minutes (c (t_diagnostico r)) (c (t_comunicado r)),
      duration_minutes (c (t_recepcion r)) (c (t_comunicado r)),
      le_num (duration_minutes (c (t_recepcion r)) (c (t_comunicado r))) (of_int sla),
      estado_of (c (t_diagnostico r)) (c (t_comunicado r)))"
  by (simp add: derived_def metrics_of_row_durations metrics_of_row_flags convert_times_def)

text \<open>
  C9, as the code has it. Take a table with at least one case, in which the reception,
  diagnosis and communication columns either all hold a timestamp or all hold none, and
  in which every reception, diagnosis and communication text is converted alike by
  \<open>parse_iso\<close> (through \<open>datetime.fromisoformat\<close>) and by \<open>pd.to_datetime\<close> with
  coercion. Then both versions return a table, and they give every case the same five
  derived values, for every threshold.
\<close>

theorem versions_agree:
  assumes "df \<noteq> []" and "subtractable g df"
    and "\<forall>r \<in> set df. parse_iso f (t_recepcion r) = to_datetime g (t_recepcion r) \<and>
                        parse_iso f (t_diagnostico r) = to_datetime g (t_diagnostico r) \<and>
                        parse_iso f (t_comunicado r) = to_datetime g (t_comunicado r)"
  shows "\<exists>A B. compute_metrics f df sla = Inr A \<and> compute_metrics3 g df sla = Inr B \<and>
               map derived A = map derived B"
  using assms by (simp add: compute_metrics_Inr compute_metrics3_Inr o_def derived_row)

theorem versions_agree_witness:
  "df_sample \<noteq> [] \<and> subtractable to_datetime_sample df_sample \<and>
   map (\<lambda>r. parse_iso fromisoformat_sample (t_recepcion r)) df_sample =
     map (\<lambda>r. to_datetime to_datetime_sample (t_recepcion r)) df_sample \<and>
   map (\<lambda>r. parse_iso fromisoformat_sample (t_diagnostico r)) df_sample =
     map (\<lambda>r. to_datetime to_datetime_sample (t_diagnostico r)) df_sample \<and>
   map (\<lambda>r. parse_iso fromisoformat_sample (t_comunicado r)) df_sample =
     map (\<lambda>r. to_datetime to_datetime_sample (t_comunicado r)) df_sample \<and>
   on_table (map derived) (compute_metrics fromisoformat_sample df_sample 30) =
     on_table (map derived) (compute_metrics3 to_datetime_sample df_sample 30) \<and>
   on_table (map derived) (compute_metrics3 to_datetime_sample df_sample 30) =
     Inr [(Fin 10, Fin 5, Fin 15, True, ''reportado''), (Fin 40, NaN, NaN, False, ''pendiente''),
          (NaN, NaN, Fin (- 15), True, ''pendiente''), (NaN, NaN, Fin 40, False, ''pendiente'')]"
proof -
  have 0: "df_sample \<noteq> []"
    by code_simp
  have s: "subtractable to_datetime_sample df_sample"
    by code_simp
  have 1: "\<forall>r \<in> set df_sample.
      parse_iso fromisoformat_sample (t_recepcion r) = to_datetime to_datetime_sample (t_recepcion r) \<and>
      parse_iso fromisoformat_sample (t_diagnostico r) = to_datetime to_datetime_sample (t_diagnostico r) \<and>
      parse_iso fromisoformat_sample (t_comunicado r) = to_datetime to_datetime_sample (t_comunicado r)"
    by code_simp
  then have 2: "map (\<lambda>r. parse_iso fromisoformat_sample (t_recepcion r)) df_sample =
             map (\<lambda>r. to_datetime to_datetime_sample (t_recepcion r)) df_sample"
    and 3: "map (\<lambda>r. parse_iso fromisoformat_sample (t_diagnostico r)) df_sample =
             map (\<lambda>r. to_datetime to_datetime_sample (t_diagnostico r)) df_sample"
    and 4: "map (\<lambda>r. parse_iso fromisoformat_sample (t_comunicado r)) df_sample =
             map (\<lambda>r. to_datetime to_datetime_sample (t_comunicado r)) df_sample"
    by simp_all
  have 5: "on_table (map derived) (compute_metrics3 to_datetime_sample df_sample 30) =
     Inr [(Fin 10, Fin 5, Fin 15, True, ''reportado''), (Fin 40, NaN, NaN, False, ''pendiente''),
          (NaN, NaN, Fin (- 15), True, ''pendiente''), (NaN, NaN, Fin 40, False, ''pendiente'')]"
    by code_simp
  from versions_agree [OF 0 s 1, of 30]
  have 6: "on_table (map derived) (compute_metrics fromisoformat_sample df_sample 30) =
     on_table (map derived) (compute_metrics3 to_datetime_sample df_sample 30)"
    by (auto simp: on_table_def)
  from 0 s 2 3 4 5 6 show ?thesis
    by blast
qed

text \<open>
  C9 as stated fails. \<open>datetime.fromisoformat\<close> rejects a text written with slashes,
  which \<open>pd.to_datetime\<close> reads: for such a case app.py has no duration and the label
  \<open>pendiente\<close>, app3.py the durations 10, 10 and 20 minutes and the label \<open>reportado\<close>.
  And for a single case without communication app.py returns its row, while app3.py
  raises \<open>TypeError\<close> on the difference of the communication and diagnosis columns.
\<close>

theorem versions_agree_counterexample:
  "on_table (map derived) (compute_metrics fromisoformat_sample [case_slashes] 30) =
     Inr [(NaN, NaN, NaN, False, ''pendiente'')] \<and>
   on_table (map derived) (compute_metrics3 to_datetime_sample [case_slashes] 30) =
     Inr [(Fin 10, Fin 10, Fin 20, True, ''reportado'')] \<and>
   on_table (map derived) (compute_metrics fromisoformat_sample [case_pending] 30) =
     Inr [(Fin 10, NaN, NaN, False, ''pendiente'')] \<and>
   on_table (map derived) (compute_metrics3 to_datetime_sample [case_pending] 30) = Inl TypeError"
  by code_simp

end
